theory Spec2Isabelle
  imports Complex_Main
begin

section \<open>Data model\<close>

text \<open>
  The mood classifier of Lumi lives in \<^verbatim>\<open>services/mood_detector.py\<close>
  (class \<^verbatim>\<open>MoodDetectorService\<close>), its rule table in
  \<^verbatim>\<open>config/personality_config.py\<close> and the cached sibling scorer in
  \<^verbatim>\<open>core/personality_engine.py\<close> (class \<^verbatim>\<open>PersonalityEngine\<close>).

  Python floats are modelled as reals: every threshold test of the source is then the same
  comparison on exact values.  Python's unbounded integers are \<open>int\<close>.  The user context is
  the dictionary built by \<^verbatim>\<open>DatabaseManager.fetch_user_context\<close>; a key that is
  absent there reads as the default of the \<^verbatim>\<open>.get\<close> call, so a field holding
  that default stands for the absent key as well.
\<close>

text \<open>One row of \<^verbatim>\<open>today_pomodoros\<close>: keys \<^verbatim>\<open>status\<close>,
  \<^verbatim>\<open>duration\<close> and \<^verbatim>\<open>title\<close>.\<close>

record pomodoro =
  status :: string
  duration :: int
  title :: string

text \<open>One row of \<^verbatim>\<open>recent_activity\<close> (most recent day first).\<close>

record activity_day =
  tasks_created :: int
  tasks_completed :: int

text \<open>
  The user context.  \<open>user_id\<close> is \<^verbatim>\<open>user_info.id\<close> (\<open>None\<close> when
  missing); the four task counts are the entries of \<^verbatim>\<open>tasks_stats\<close>;
  \<open>peak_hour\<close> is \<^verbatim>\<open>productivity_patterns.get("peak_hour")\<close>;
  \<open>lumi_memory\<close> is \<open>None\<close> for a missing or empty memory dictionary and otherwise holds
  what \<^verbatim>\<open>lumi_memory.get("interaction_count", 0)\<close> reads.
\<close>

record user_context =
  user_id :: "string option"
  total_tasks :: int
  completed_tasks :: int
  overdue_tasks :: int
  pending_tasks :: int
  recent_activity :: "activity_day list"
  current_streak :: int
  today_pomodoros :: "pomodoro list"
  peak_hour :: "int option"
  lumi_memory :: "int option"

text \<open>
  Text shown to the user.  A static template is kept as its (transliterated) wording; an
  f-string is kept as its template together with the number it formats; the transition line
  keeps the two mood names.
\<close>

datatype message =
  Static string
  | Formatted string real
  | TransitionLine string string

text \<open>The dataclass \<^verbatim>\<open>MoodIndicator\<close>; the field \<^verbatim>\<open>value\<close> is
  \<open>ind_value\<close> here.\<close>

record MoodIndicator =
  indicator_type :: string
  ind_value :: real
  weight :: real
  description :: message

text \<open>The dataclass \<^verbatim>\<open>MoodTransition\<close>; time is in seconds.\<close>

record MoodTransition =
  from_mood :: string
  to_mood :: string
  timestamp :: int
  trigger_factors :: "string list"
  confidence :: real

text \<open>The dictionary returned by \<^verbatim>\<open>detect_current_mood\<close>.\<close>

record MoodResult =
  res_current_mood :: string
  res_confidence :: real
  res_mood_scores :: "(string \<times> real) list"
  res_indicators :: "MoodIndicator list"
  res_transition :: "MoodTransition option"
  res_insights :: "message list"
  res_recommendations :: "message list"

section \<open>The rule table\<close>

text \<open>A rule condition of \<^verbatim>\<open>MOOD_DETECTION_RULES\<close> is a dictionary of bounds
  or the constant \<^verbatim>\<open>True\<close>.\<close>

datatype rule_condition =
  CondDict "(string \<times> real) list"
  | CondTrue

definition MOOD_DETECTION_RULES :: "(string \<times> (string \<times> rule_condition) list) list" where
  "MOOD_DETECTION_RULES =
    [(''motivated'',
        [(''tasks_completed_today'', CondDict [(''min'', 3)]),
         (''streak_days'', CondDict [(''min'', 2)]),
         (''pomodoros_completed_today'', CondDict [(''min'', 4)]),
         (''recent_activity'', CondDict [(''hours'', 2)])]),
     (''struggling'',
        [(''tasks_overdue'', CondDict [(''min'', 2)]),
         (''days_since_completion'', CondDict [(''min'', 3)]),
         (''completion_rate_week'', CondDict [(''max'', 0.3)]),
         (''inactive_days'', CondDict [(''min'', 2)])]),
     (''focused'',
        [(''avg_pomodoro_duration'', CondDict [(''min'', 20)]),
         (''consecutive_pomodoros'', CondDict [(''min'', 3)]),
         (''task_switches_today'', CondDict [(''max'', 2)]),
         (''current_session_length'', CondDict [(''min'', 40)])]),
     (''overwhelmed'',
        [(''pending_tasks'', CondDict [(''min'', 10)]),
         (''tasks_created_vs_completed'', CondDict [(''ratio'', 3.0)]),
         (''priority_high_pending'', CondDict [(''min'', 5)]),
         (''completion_rate_week'', CondDict [(''max'', 0.4)])]),
     (''celebrating'',
        [(''goals_achieved_week'', CondDict [(''min'', 1)]),
         (''streak_days'', CondDict [(''min'', 7)]),
         (''completion_rate_week'', CondDict [(''min'', 0.8)]),
         (''personal_best'', CondTrue)]),
     (''returning'',
        [(''days_since_last_activity'', CondDict [(''min'', 3)]),
         (''previous_streak'', CondDict [(''min'', 5)]),
         (''total_tasks_completed'', CondDict [(''min'', 10)]),
         (''welcome_back'', CondTrue)])]"

section \<open>Indicator extractor\<close>

text \<open>\<^verbatim>\<open>len([p for p in today_pomodoros if p.get("status") == "completed"])\<close>\<close>

definition today_completed_pomodoros :: "pomodoro list \<Rightarrow> int" where
  "today_completed_pomodoros ps = int (length (filter (\<lambda>p. status p = ''completed'') ps))"

text \<open>\<^verbatim>\<open>sum(p.get("duration", 0) for p in today_pomodoros if p.get("status") == "completed")\<close>\<close>

definition completed_duration :: "pomodoro list \<Rightarrow> int" where
  "completed_duration ps = sum_list (map duration (filter (\<lambda>p. status p = ''completed'') ps))"

text \<open>
  \<^verbatim>\<open>_calculate_mood_indicators\<close>.  The source reads
  \<^verbatim>\<open>datetime.now().hour\<close> itself; the reading is the argument
  \<open>current_hour\<close> of the model.  The indicators are appended in the order of the source.
  \<^verbatim>\<open>if peak_hour:\<close> is Python truthiness: it fails for a missing value and for
  the number 0.
\<close>

definition calculate_mood_indicators :: "int \<Rightarrow> user_context \<Rightarrow> MoodIndicator list" where
  "calculate_mood_indicators current_hour ctx =
    (let completion_rate = real_of_int (completed_tasks ctx) / real_of_int (total_tasks ctx);
         done_today = today_completed_pomodoros (today_pomodoros ctx);
         recent_trend = tasks_completed (recent_activity ctx ! 0)
                        - tasks_completed (recent_activity ctx ! 1);
         avg_duration = real_of_int (completed_duration (today_pomodoros ctx))
                        / real_of_int done_today;
         overwhelm_score = min (real_of_int (pending_tasks ctx) / 10) 1
     in
      (if total_tasks ctx > 0 then
         [\<lparr>indicator_type = ''completion_rate'', ind_value = completion_rate, weight = 0.8,
           description = Formatted ''Taxa de conclusao: {:.1%}'' completion_rate\<rparr>]
       else [])
      @ (if overdue_tasks ctx > 0 then
         [\<lparr>indicator_type = ''overdue_tasks'', ind_value = real_of_int (overdue_tasks ctx),
           weight = 0.9,
           description = Formatted ''{} tarefas em atraso'' (real_of_int (overdue_tasks ctx))\<rparr>]
       else [])
      @ [\<lparr>indicator_type = ''current_streak'', ind_value = real_of_int (current_streak ctx),
           weight = 0.7,
           description = Formatted ''Sequencia de {} dias'' (real_of_int (current_streak ctx))\<rparr>]
      @ [\<lparr>indicator_type = ''today_pomodoros'', ind_value = real_of_int done_today,
           weight = 0.6,
           description = Formatted ''{} pomodoros hoje'' (real_of_int done_today)\<rparr>]
      @ (if length (recent_activity ctx) \<ge> 2 then
         [\<lparr>indicator_type = ''activity_trend'', ind_value = real_of_int recent_trend,
           weight = 0.5,
           description = Formatted ''Tendencia de atividade: {}'' (real_of_int recent_trend)\<rparr>]
       else [])
      @ (if today_pomodoros ctx \<noteq> [] \<and> done_today > 0 then
         [\<lparr>indicator_type = ''focus_quality'', ind_value = avg_duration, weight = 0.4,
           description = Formatted ''Duracao media de foco: {:.1f}min'' avg_duration\<rparr>]
       else [])
      @ (if pending_tasks ctx > 0 then
         [\<lparr>indicator_type = ''overwhelm_level'', ind_value = overwhelm_score, weight = 0.6,
           description = Formatted ''Nivel de sobrecarga: {:.1%}'' overwhelm_score\<rparr>]
       else [])
      @ (case peak_hour ctx of
           None \<Rightarrow> []
         | Some ph \<Rightarrow>
             if ph \<noteq> 0 then
               (let time_alignment = 1 - real_of_int \<bar>current_hour - ph\<bar> / 12 in
                [\<lparr>indicator_type = ''timing_alignment'', ind_value = time_alignment,
                  weight = 0.3,
                  description =
                    Formatted ''Alinhamento com horario de pico: {:.1%}'' time_alignment\<rparr>])
             else []))"

section \<open>Mood scorer\<close>

text \<open>\<^verbatim>\<open>{ind.indicator_type: ind.value for ind in indicators}\<close>: a later indicator
  of the same type overwrites an earlier one.\<close>

definition indicator_values :: "MoodIndicator list \<Rightarrow> string \<Rightarrow> real option" where
  "indicator_values inds = map_of (rev (map (\<lambda>i. (indicator_type i, ind_value i)) inds))"

text \<open>\<^verbatim>\<open>next((ind.weight for ind in indicators if ind.indicator_type == rule_key), 1.0)\<close>\<close>

fun first_weight :: "string \<Rightarrow> MoodIndicator list \<Rightarrow> real" where
  "first_weight k [] = 1"
| "first_weight k (i # inds) = (if indicator_type i = k then weight i else first_weight k inds)"

text \<open>\<^verbatim>\<open>indicators.get(key, 0)\<close>\<close>

definition get0 :: "(string \<Rightarrow> real option) \<Rightarrow> string \<Rightarrow> real" where
  "get0 iv k = (case iv k of None \<Rightarrow> 0 | Some v \<Rightarrow> v)"

definition calculate_motivated_bonus :: "(string \<Rightarrow> real option) \<Rightarrow> real" where
  "calculate_motivated_bonus iv =
     (if get0 iv ''completion_rate'' > 0.7 then 0.3 else 0)
   + (if get0 iv ''current_streak'' \<ge> 3 then 0.2 else 0)
   + (if get0 iv ''today_pomodoros'' \<ge> 3 then 0.2 else 0)
   + (if get0 iv ''activity_trend'' > 0 then 0.1 else 0)"

definition calculate_struggling_bonus :: "(string \<Rightarrow> real option) \<Rightarrow> real" where
  "calculate_struggling_bonus iv =
     (if get0 iv ''overdue_tasks'' \<ge> 2 then 0.4 else 0)
   + (if get0 iv ''completion_rate'' < 0.3 then 0.3 else 0)
   + (if get0 iv ''current_streak'' = 0 then 0.2 else 0)
   + (if get0 iv ''today_pomodoros'' = 0 then 0.2 else 0)"

definition calculate_focused_bonus :: "(string \<Rightarrow> real option) \<Rightarrow> real" where
  "calculate_focused_bonus iv =
     (if get0 iv ''focus_quality'' \<ge> 20 then 0.3 else 0)
   + (if get0 iv ''today_pomodoros'' \<ge> 3 then 0.2 else 0)
   + (if get0 iv ''timing_alignment'' > 0.8 then 0.2 else 0)"

definition calculate_overwhelmed_bonus :: "(string \<Rightarrow> real option) \<Rightarrow> real" where
  "calculate_overwhelmed_bonus iv =
     (if get0 iv ''overwhelm_level'' > 0.7 then 0.4 else 0)
   + (if get0 iv ''overdue_tasks'' \<ge> 3 then 0.3 else 0)
   + (if get0 iv ''completion_rate'' < 0.4 then 0.2 else 0)"

definition calculate_celebrating_bonus :: "(string \<Rightarrow> real option) \<Rightarrow> real" where
  "calculate_celebrating_bonus iv =
     (if get0 iv ''current_streak'' \<ge> 7 then 0.4 else 0)
   + (if get0 iv ''completion_rate'' \<ge> 0.8 then 0.3 else 0)
   + (if get0 iv ''activity_trend'' > 1 then 0.2 else 0)"

definition calculate_returning_bonus :: "(string \<Rightarrow> real option) \<Rightarrow> real" where
  "calculate_returning_bonus iv =
     (if get0 iv ''current_streak'' = 0 then 0.2 else 0)
   + (if get0 iv ''today_pomodoros'' = 0 then 0.1 else 0)"

text \<open>The \<^verbatim>\<open>if mood == ... elif ...\<close> chain that picks the bonus function.\<close>

definition mood_bonus :: "string \<Rightarrow> (string \<Rightarrow> real option) \<Rightarrow> real" where
  "mood_bonus mood iv =
    (if mood = ''motivated'' then calculate_motivated_bonus iv
     else if mood = ''struggling'' then calculate_struggling_bonus iv
     else if mood = ''focused'' then calculate_focused_bonus iv
     else if mood = ''overwhelmed'' then calculate_overwhelmed_bonus iv
     else if mood = ''celebrating'' then calculate_celebrating_bonus iv
     else if mood = ''returning'' then calculate_returning_bonus iv
     else 0)"

text \<open>
  One turn of the inner loop over \<^verbatim>\<open>rules.items()\<close>: the pair is
  \<^verbatim>\<open>(score, total_weight)\<close>.  A rule whose key is no indicator type changes
  nothing.
\<close>

definition apply_rule ::
  "MoodIndicator list \<Rightarrow> real \<times> real \<Rightarrow> string \<times> rule_condition \<Rightarrow> real \<times> real" where
  "apply_rule inds acc rule =
    (case indicator_values inds (fst rule) of
       None \<Rightarrow> acc
     | Some v \<Rightarrow>
        (let w = first_weight (fst rule) inds;
             score = fst acc;
             score' =
               (case snd rule of
                  CondDict d \<Rightarrow>
                    (let s1 = (case map_of d ''min'' of
                                 Some m \<Rightarrow> if v \<ge> m then score + w else score
                               | None \<Rightarrow> score)
                     in (case map_of d ''max'' of
                           Some m \<Rightarrow> if v \<le> m then s1 + w else s1
                         | None \<Rightarrow> s1))
                | CondTrue \<Rightarrow> score + w)
         in (score', snd acc + w)))"

text \<open>The body of the outer loop: the normalised score of one mood.\<close>

definition mood_score ::
  "MoodIndicator list \<Rightarrow> string \<Rightarrow> (string \<times> rule_condition) list \<Rightarrow> real" where
  "mood_score inds mood rules =
    (let acc = foldl (apply_rule inds) (0, 0) rules;
         score = fst acc + mood_bonus mood (indicator_values inds);
         total_weight = snd acc
     in if total_weight > 0 then score / max total_weight 1 else 0)"

text \<open>\<^verbatim>\<open>_apply_detection_rules\<close>, over any rule table; the result dictionary keeps
  the order of the table.\<close>

definition apply_rules_table ::
  "(string \<times> (string \<times> rule_condition) list) list \<Rightarrow> MoodIndicator list
     \<Rightarrow> (string \<times> real) list" where
  "apply_rules_table table inds = map (\<lambda>(mood, rules). (mood, mood_score inds mood rules)) table"

definition apply_detection_rules :: "MoodIndicator list \<Rightarrow> (string \<times> real) list" where
  "apply_detection_rules inds = apply_rules_table MOOD_DETECTION_RULES inds"

text \<open>Python's \<^verbatim>\<open>max(items, key=lambda x: x[1])\<close> keeps the first of several
  maximal items.\<close>

fun max_item :: "string \<times> real \<Rightarrow> (string \<times> real) list \<Rightarrow> string \<times> real" where
  "max_item best [] = best"
| "max_item best (x # xs) = max_item (if snd x > snd best then x else best) xs"

text \<open>\<^verbatim>\<open>_determine_primary_mood\<close>\<close>

definition determine_primary_mood :: "(string \<times> real) list \<Rightarrow> string \<times> real" where
  "determine_primary_mood mood_scores =
    (case mood_scores of
       [] \<Rightarrow> (''encouraging'', 0.5)
     | x # xs \<Rightarrow>
        if list_all (\<lambda>p. snd p = 0) mood_scores then (''encouraging'', 0.5)
        else (let primary = max_item x xs in
              if snd primary < 0.3 then (''encouraging'', snd primary)
              else (fst primary, min (snd primary) 1)))"

section \<open>Persistence collaborator\<close>

text \<open>
  The table \<^verbatim>\<open>lumi_memory\<close> holds at most one row per user (the insert of
  \<^verbatim>\<open>update_lumi_memory\<close> is an upsert on \<^verbatim>\<open>userId\<close>); the model
  keeps its columns \<^verbatim>\<open>currentMood\<close> and \<^verbatim>\<open>updatedAt\<close>.  A database
  that is not \<open>db_available\<close> raises on every operation.
\<close>

record database =
  db_available :: bool
  lumi_memory_rows :: "string \<Rightarrow> (string \<times> int) option"

datatype db_error = DatabaseError

text \<open>The \<^verbatim>\<open>fetchrow\<close> of \<^verbatim>\<open>_analyze_mood_transition\<close>.\<close>

definition fetch_previous_mood :: "database \<Rightarrow> string \<Rightarrow> db_error + (string \<times> int) option" where
  "fetch_previous_mood db uid =
    (if db_available db then Inr (lumi_memory_rows db uid) else Inl DatabaseError)"

text \<open>\<^verbatim>\<open>DatabaseManager.update_lumi_memory\<close>, as far as the mood is concerned.\<close>

definition update_lumi_memory :: "database \<Rightarrow> int \<Rightarrow> string \<Rightarrow> string \<Rightarrow> db_error + database" where
  "update_lumi_memory db now uid mood =
    (if db_available db
     then Inr (db\<lparr>lumi_memory_rows := (lumi_memory_rows db)(uid \<mapsto> (mood, now))\<rparr>)
     else Inl DatabaseError)"

section \<open>Transition tracker\<close>

text \<open>\<^verbatim>\<open>_identify_transition_triggers\<close>\<close>

definition identify_transition_triggers :: "string \<Rightarrow> string \<Rightarrow> string list" where
  "identify_transition_triggers from_m to_m =
    (if from_m = ''motivated'' \<and> to_m = ''overwhelmed'' then [''Aumento na carga de trabalho'']
     else if from_m = ''struggling'' \<and> to_m = ''motivated''
       then [''Conclusao de tarefas pendentes'']
     else if from_m = ''focused'' \<and> to_m = ''celebrating'' then [''Atingimento de objetivos'']
     else if to_m = ''returning'' then [''Retorno apos periodo de inatividade'']
     else [])"

text \<open>
  \<^verbatim>\<open>_analyze_mood_transition\<close>: \<open>read\<close> is the outcome of the query for the
  user's row, \<open>now\<close> the clock reading that stamps the transition.  A failed read is
  caught by the \<^verbatim>\<open>except\<close> branch, which returns \<^verbatim>\<open>None\<close>.
\<close>

definition analyze_transition_of ::
  "db_error + (string \<times> int) option \<Rightarrow> int \<Rightarrow> string \<Rightarrow> MoodTransition option" where
  "analyze_transition_of read now current_mood =
    (case read of
       Inl e \<Rightarrow> None
     | Inr None \<Rightarrow> None
     | Inr (Some previous) \<Rightarrow>
         if fst previous \<noteq> current_mood then
           Some \<lparr>from_mood = fst previous, to_mood = current_mood, timestamp = now,
                 trigger_factors = identify_transition_triggers (fst previous) current_mood,
                 confidence = 0.7\<rparr>
         else None)"

definition analyze_mood_transition ::
  "database \<Rightarrow> int \<Rightarrow> string \<Rightarrow> string \<Rightarrow> MoodTransition option" where
  "analyze_mood_transition db now uid current_mood =
     analyze_transition_of (fetch_previous_mood db uid) now current_mood"

section \<open>Insight and recommendation generator\<close>

text \<open>\<^verbatim>\<open>_generate_mood_insights\<close>\<close>

definition generate_mood_insights ::
  "string \<Rightarrow> MoodIndicator list \<Rightarrow> MoodTransition option \<Rightarrow> message list" where
  "generate_mood_insights mood indicators transition =
    (if mood = ''motivated''
       then [Static ''Voce esta em um excelente momento de produtividade!'']
     else if mood = ''struggling'' then [Static ''Detectei alguns desafios em sua rotina'']
     else if mood = ''focused'' then [Static ''Seu foco esta em alta qualidade'']
     else if mood = ''overwhelmed''
       then [Static ''Ha sinais de sobrecarga em suas atividades'']
     else if mood = ''celebrating'' then [Static ''Parabens pelos resultados conquistados!'']
     else if mood = ''returning'' then [Static ''Bem-vindo de volta a sua rotina produtiva'']
     else [])
    @ map description (take 2 (filter (\<lambda>ind. weight ind \<ge> 0.7) indicators))
    @ (case transition of
         None \<Rightarrow> []
       | Some t \<Rightarrow> [TransitionLine (from_mood t) (to_mood t)])"

text \<open>\<^verbatim>\<open>_generate_mood_recommendations\<close>; the indicators are not read.\<close>

definition generate_mood_recommendations :: "string \<Rightarrow> MoodIndicator list \<Rightarrow> message list" where
  "generate_mood_recommendations mood indicators =
    take 3
     (if mood = ''motivated'' then
        [Static ''Aproveite esse momento para tackle tarefas desafiadoras'',
         Static ''Considere aumentar suas metas diarias'']
      else if mood = ''struggling'' then
        [Static ''Comece com tarefas pequenas para reconstruir momentum'',
         Static ''Considere reduzir temporariamente suas expectativas'']
      else if mood = ''focused'' then
        [Static ''Continue no ritmo atual para maximizar a produtividade'',
         Static ''Evite interrupcoes durante este periodo de foco'']
      else if mood = ''overwhelmed'' then
        [Static ''Priorize apenas 3 tarefas mais importantes'',
         Static ''Considere delegar ou adiar tarefas menos criticas'']
      else if mood = ''celebrating'' then
        [Static ''Defina novas metas desafiadoras'',
         Static ''Compartilhe seus sucessos para manter motivacao'']
      else if mood = ''returning'' then
        [Static ''Comece gradualmente com tarefas simples'',
         Static ''Foque em reestabelecer sua rotina'']
      else [])"

section \<open>Classification\<close>

text \<open>\<^verbatim>\<open>_update_mood_history\<close>: best effort, a failure of the write is swallowed
  and leaves the table as it was.\<close>

definition update_mood_history :: "database \<Rightarrow> int \<Rightarrow> string \<Rightarrow> string \<Rightarrow> bool \<times> database" where
  "update_mood_history db now uid mood =
    (case update_lumi_memory db now uid mood of
       Inl e \<Rightarrow> (False, db)
     | Inr db' \<Rightarrow> (True, db'))"

text \<open>\<^verbatim>\<open>_get_default_mood_detection\<close>, the result of the \<^verbatim>\<open>except\<close> branch
  of \<^verbatim>\<open>detect_current_mood\<close>.\<close>

definition get_default_mood_detection :: MoodResult where
  "get_default_mood_detection =
    \<lparr>res_current_mood = ''encouraging'', res_confidence = 0.5, res_mood_scores = [],
     res_indicators = [], res_transition = None,
     res_insights = [Static ''Analisando seus padroes...''],
     res_recommendations = [Static ''Continue usando o sistema para analises mais precisas'']\<rparr>"

text \<open>
  \<^verbatim>\<open>detect_current_mood\<close> on a well-typed context, where no step of the
  \<^verbatim>\<open>try\<close> block raises: the two helpers that touch the database catch their own
  exceptions.  \<open>current_hour\<close> is the hour the extractor reads from the clock and \<open>now\<close>
  the later reading that stamps a transition and the stored row.  The result comes with the
  database after the write.
\<close>

definition detect_current_mood ::
  "database \<Rightarrow> int \<Rightarrow> int \<Rightarrow> string \<Rightarrow> user_context \<Rightarrow> MoodResult \<times> database" where
  "detect_current_mood db current_hour now uid ctx =
    (let mood_indicators = calculate_mood_indicators current_hour ctx;
         mood_scores = apply_detection_rules mood_indicators;
         primary = determine_primary_mood mood_scores;
         primary_mood = fst primary;
         conf = snd primary;
         mood_transition = analyze_mood_transition db now uid primary_mood;
         insights = generate_mood_insights primary_mood mood_indicators mood_transition;
         db' = snd (update_mood_history db now uid primary_mood)
     in (\<lparr>res_current_mood = primary_mood, res_confidence = conf,
          res_mood_scores = mood_scores, res_indicators = mood_indicators,
          res_transition = mood_transition, res_insights = insights,
          res_recommendations = generate_mood_recommendations primary_mood mood_indicators\<rparr>,
         db'))"

section \<open>History analyzer\<close>






section \<open>The personality engine\<close>

text \<open>
  \<^verbatim>\<open>PersonalityEngine\<close> scores the same six moods from the raw context.  Each
  score function of the source receives parts of the context; the model passes the context.
  \<open>current_time\<close> is the hour that \<^verbatim>\<open>_calculate_focused_score\<close> reads from
  \<^verbatim>\<open>datetime.now()\<close>.
\<close>

definition completion_rate_of :: "user_context \<Rightarrow> real" where
  "completion_rate_of ctx = real_of_int (completed_tasks ctx) / real_of_int (total_tasks ctx)"

text \<open>\<^verbatim>\<open>_calculate_motivated_score\<close>\<close>

definition calculate_motivated_score :: "user_context \<Rightarrow> real" where
  "calculate_motivated_score ctx =
    min ((if today_completed_pomodoros (today_pomodoros ctx) \<ge> 3 then 0.3 else 0)
       + (if current_streak ctx \<ge> 2
            then 0.2 + min (real_of_int (current_streak ctx) * 0.05) 0.3 else 0)
       + (if total_tasks ctx > 0 \<and> completion_rate_of ctx > 0.7 then 0.2 else 0)
       + (if length (recent_activity ctx) \<ge> 2
             \<and> tasks_completed (recent_activity ctx ! 0)
                 - tasks_completed (recent_activity ctx ! 1) > 0
            then 0.1 else 0)) 1"

text \<open>\<^verbatim>\<open>all(recent_completions[i] >= recent_completions[i+1] for i in range(len(recent_completions)-1))\<close>\<close>

fun non_increasing :: "int list \<Rightarrow> bool" where
  "non_increasing (x # y # zs) = (x \<ge> y \<and> non_increasing (y # zs))"
| "non_increasing zs = True"

text \<open>\<^verbatim>\<open>_calculate_struggling_score\<close>\<close>

definition calculate_struggling_score :: "user_context \<Rightarrow> real" where
  "calculate_struggling_score ctx =
    min ((if overdue_tasks ctx \<ge> 2
            then 0.3 + min (real_of_int (overdue_tasks ctx) * 0.1) 0.2 else 0)
       + (if total_tasks ctx > 0 \<and> completion_rate_of ctx < 0.3 then 0.3 else 0)
       + (if current_streak ctx = 0 then 0.2 else 0)
       + (if length (recent_activity ctx) \<ge> 3
             \<and> non_increasing (map tasks_completed (take 3 (recent_activity ctx)))
            then 0.2 else 0)) 1"

text \<open>\<^verbatim>\<open>_calculate_focused_score\<close>; \<^verbatim>\<open>if peak_hour and ...\<close> is
  truthiness again.\<close>

definition calculate_focused_score :: "int \<Rightarrow> user_context \<Rightarrow> real" where
  "calculate_focused_score current_time ctx =
    (let completed_pomodoros = filter (\<lambda>p. status p = ''completed'') (today_pomodoros ctx);
         avg_duration = real_of_int (sum_list (map duration completed_pomodoros))
                        / real (length completed_pomodoros);
         consecutive_count =
           length (takeWhile (\<lambda>p. status p = ''completed'') (today_pomodoros ctx))
     in min ((if completed_pomodoros \<noteq> [] \<and> avg_duration \<ge> 20 then 0.3 else 0)
           + (if consecutive_count \<ge> 3 then 0.2 else 0)
           + (case peak_hour ctx of
                None \<Rightarrow> 0
              | Some ph \<Rightarrow> if ph \<noteq> 0 \<and> \<bar>current_time - ph\<bar> \<le> 1 then 0.2 else 0)
           + (if length (remdups (map title (today_pomodoros ctx))) \<le> 2
                 \<and> length (today_pomodoros ctx) \<ge> 3
                then 0.3 else 0)) 1)"

text \<open>\<^verbatim>\<open>_calculate_overwhelmed_score\<close>\<close>

definition calculate_overwhelmed_score :: "user_context \<Rightarrow> real" where
  "calculate_overwhelmed_score ctx =
    (let pending = pending_tasks ctx;
         recent_created = sum_list (map tasks_created (take 3 (recent_activity ctx)));
         recent_completed = sum_list (map tasks_completed (take 3 (recent_activity ctx)));
         incomplete_pomodoros =
           length (filter (\<lambda>p. status p \<noteq> ''completed'') (today_pomodoros ctx))
     in min ((if pending \<ge> 10 then 0.4 else if pending \<ge> 5 then 0.2 else 0)
           + (if recent_activity ctx \<noteq> [] \<and> recent_created > 0
                 \<and> real_of_int recent_completed / real_of_int recent_created < 0.4
                then 0.3 else 0)
           + (if pending \<ge> 5 then 0.2 else 0)
           + (if incomplete_pomodoros \<ge> 3 then 0.2 else 0)) 1)"

text \<open>\<^verbatim>\<open>_calculate_celebrating_score\<close>\<close>

definition calculate_celebrating_score :: "user_context \<Rightarrow> real" where
  "calculate_celebrating_score ctx =
    (let streak = current_streak ctx;
         today_completed = tasks_completed (hd (recent_activity ctx));
         avg_completion =
           real_of_int (sum_list (map tasks_completed (tl (recent_activity ctx))))
           / real (length (recent_activity ctx) - 1)
     in min ((if streak \<ge> 7 then 0.4 + min (real_of_int (streak - 7) * 0.05) 0.2 else 0)
           + (if total_tasks ctx > 0 \<and> completion_rate_of ctx \<ge> 0.8 then 0.3 else 0)
           + (if recent_activity ctx \<noteq> [] \<and> length (recent_activity ctx) > 1
                 \<and> real_of_int today_completed > avg_completion * 1.5
                then 0.3 else 0)) 1)"

text \<open>\<^verbatim>\<open>_calculate_returning_score\<close>\<close>

definition calculate_returning_score :: "user_context \<Rightarrow> real" where
  "calculate_returning_score ctx =
    (let n = length (recent_activity ctx);
         total = sum_list (map tasks_completed (recent_activity ctx))
     in min ((if n = 0 then 0.5 else if n < 3 then 0.3 else 0)
           + (case lumi_memory ctx of
                None \<Rightarrow> 0
              | Some interaction_count \<Rightarrow>
                  if current_streak ctx = 0 \<and> interaction_count > 10 then 0.3 else 0)
           + (case lumi_memory ctx of
                None \<Rightarrow> 0
              | Some interaction_count \<Rightarrow>
                  if interaction_count > 5 \<and> total < 3 then 0.2 else 0)) 1)"

text \<open>The six raw scores, in the order of \<^verbatim>\<open>MOOD_STATES\<close>.\<close>

definition raw_mood_scores :: "int \<Rightarrow> user_context \<Rightarrow> (string \<times> real) list" where
  "raw_mood_scores current_time ctx =
    [(''motivated'', calculate_motivated_score ctx),
     (''struggling'', calculate_struggling_score ctx),
     (''focused'', calculate_focused_score current_time ctx),
     (''overwhelmed'', calculate_overwhelmed_score ctx),
     (''celebrating'', calculate_celebrating_score ctx),
     (''returning'', calculate_returning_score ctx)]"

text \<open>The normalisation that ends \<^verbatim>\<open>_calculate_mood_scores\<close>:
  \<^verbatim>\<open>max(mood_scores.values()) if mood_scores.values() else 1.0\<close>, then the division
  when the maximum is positive.\<close>

fun max_value :: "real \<Rightarrow> real list \<Rightarrow> real" where
  "max_value m [] = m"
| "max_value m (x # xs) = max_value (max m x) xs"

definition normalize_scores :: "(string \<times> real) list \<Rightarrow> (string \<times> real) list" where
  "normalize_scores scores =
    (let max_score = (case map snd scores of [] \<Rightarrow> 1 | v # vs \<Rightarrow> max_value v vs)
     in if max_score > 0 then map (\<lambda>p. (fst p, snd p / max_score)) scores else scores)"

text \<open>\<^verbatim>\<open>_calculate_mood_scores\<close>\<close>

definition calculate_mood_scores :: "int \<Rightarrow> user_context \<Rightarrow> (string \<times> real) list" where
  "calculate_mood_scores current_time ctx = normalize_scores (raw_mood_scores current_time ctx)"

text \<open>The entry \<^verbatim>\<open>tone\<close> of \<^verbatim>\<open>MOOD_STATES\<close>.\<close>

definition MOOD_STATES_tone :: "(string \<times> string) list" where
  "MOOD_STATES_tone =
    [(''motivated'', ''casual''), (''struggling'', ''supportive''), (''focused'', ''direct''),
     (''overwhelmed'', ''calming''), (''celebrating'', ''enthusiastic''),
     (''returning'', ''welcoming'')]"

text \<open>\<^verbatim>\<open>_get_personality_tone\<close>\<close>

definition get_personality_tone :: "string \<Rightarrow> real \<Rightarrow> string" where
  "get_personality_tone mood conf =
    (let base_tone = (case map_of MOOD_STATES_tone mood of
                        None \<Rightarrow> ''casual''
                      | Some tone \<Rightarrow> tone)
     in if conf < 0.5 then ''supportive'' else base_tone)"

text \<open>\<^verbatim>\<open>_get_contributing_factors\<close>\<close>

definition get_contributing_factors :: "string \<Rightarrow> user_context \<Rightarrow> message list" where
  "get_contributing_factors mood ctx =
    take 3
     (if mood = ''motivated'' then
        (if current_streak ctx \<ge> 2
           then [Formatted ''Sequencia de {} dias ativa'' (real_of_int (current_streak ctx))]
           else [])
        @ (if length (today_pomodoros ctx) \<ge> 3
             then [Static ''Multiplos pomodoros completados hoje''] else [])
      else if mood = ''struggling'' then
        (if overdue_tasks ctx > 0
           then [Formatted ''{} tarefas em atraso'' (real_of_int (overdue_tasks ctx))]
           else [])
        @ (if current_streak ctx = 0 then [Static ''Sequencia interrompida''] else [])
      else if mood = ''focused'' then
        (if today_pomodoros ctx \<noteq> [] then [Static ''Sessoes de foco consistentes hoje'']
         else [])
      else if mood = ''overwhelmed'' then
        (if pending_tasks ctx \<ge> 5
           then [Formatted ''{} tarefas pendentes'' (real_of_int (pending_tasks ctx))]
           else [])
      else if mood = ''celebrating'' then
        (if current_streak ctx \<ge> 7
           then [Formatted ''Sequencia impressionante de {} dias''
                   (real_of_int (current_streak ctx))]
           else [])
      else [])"

text \<open>\<^verbatim>\<open>_get_mood_recommendations\<close>\<close>

definition get_mood_recommendations :: "string \<Rightarrow> user_context \<Rightarrow> message list" where
  "get_mood_recommendations mood ctx =
    take 2
     (if mood = ''motivated'' then
        [Static ''Aproveite essa energia para tacklear tarefas desafiadoras'',
         Static ''Considere aumentar sua meta diaria'']
      else if mood = ''struggling'' then
        [Static ''Comece com tarefas pequenas e faceis'',
         Static ''Considere reduzir o escopo das tarefas grandes'']
      else if mood = ''focused'' then
        [Static ''Continue no seu ritmo atual'',
         Static ''Evite distracoes durante esse periodo produtivo'']
      else if mood = ''overwhelmed'' then
        [Static ''Priorize apenas 3 tarefas para hoje'',
         Static ''Divida tarefas grandes em partes menores'']
      else if mood = ''celebrating'' then
        [Static ''Defina a proxima meta desafiadora'',
         Static ''Compartilhe seu sucesso para manter a motivacao'']
      else if mood = ''returning'' then
        [Static ''Comece devagar com tarefas simples'',
         Static ''Reestabeleca uma rotina consistente'']
      else [])"

text \<open>The dictionary \<^verbatim>\<open>mood_analysis\<close>.\<close>

record MoodAnalysis =
  detected_mood :: string
  ma_confidence :: real
  personality_tone :: string
  adaptation_applied :: bool
  contributing_factors :: "message list"
  ma_recommendations :: "message list"
  ma_mood_scores :: "(string \<times> real) list"

text \<open>\<^verbatim>\<open>_get_default_mood\<close>\<close>

definition get_default_mood :: MoodAnalysis where
  "get_default_mood =
    \<lparr>detected_mood = ''neutral'', ma_confidence = 0.5, personality_tone = ''friendly'',
     adaptation_applied = False, contributing_factors = [Static ''Analise inicial''],
     ma_recommendations = [Static ''Continue usando o sistema para analises mais precisas''],
     ma_mood_scores = []\<rparr>"

text \<open>The part of \<^verbatim>\<open>analyze_user_mood\<close> that runs on a cache miss, up to the
  dictionary it builds.  \<^verbatim>\<open>max\<close> of an empty dictionary raises, and the
  \<^verbatim>\<open>except\<close> branch then returns the default analysis.\<close>

definition compute_mood_analysis :: "int \<Rightarrow> user_context \<Rightarrow> MoodAnalysis" where
  "compute_mood_analysis current_time ctx =
    (let mood_scores = calculate_mood_scores current_time ctx
     in case mood_scores of
          [] \<Rightarrow> get_default_mood
        | x # xs \<Rightarrow>
           (let primary_mood = max_item x xs;
                mood_name = fst primary_mood;
                conf = snd primary_mood
            in \<lparr>detected_mood = mood_name, ma_confidence = conf,
                personality_tone = get_personality_tone mood_name conf,
                adaptation_applied = True,
                contributing_factors = get_contributing_factors mood_name ctx,
                ma_recommendations = get_mood_recommendations mood_name ctx,
                ma_mood_scores = mood_scores\<rparr>))"

section \<open>Result cache\<close>

text \<open>
  Time is in whole seconds of local time.  The cache key
  \<^verbatim>\<open>f"{user_id}_{datetime.now().strftime('%H_%M')}"\<close> is the user id with the hour
  and the minute of the day: it carries no date.
\<close>

definition hour_of :: "int \<Rightarrow> int" where
  "hour_of t = (t div 3600) mod 24"

definition minute_of :: "int \<Rightarrow> int" where
  "minute_of t = (t div 60) mod 60"

definition cache_key :: "string \<Rightarrow> int \<Rightarrow> string \<times> int \<times> int" where
  "cache_key uid t = (uid, hour_of t, minute_of t)"

text \<open>The attribute \<^verbatim>\<open>seconds\<close> of a \<^verbatim>\<open>timedelta\<close>: Python keeps a
  difference as days, seconds and microseconds with the seconds in 0..86399, so the attribute
  drops the whole days.\<close>

definition timedelta_seconds :: "int \<Rightarrow> int \<Rightarrow> int" where
  "timedelta_seconds later earlier = (later - earlier) mod 86400"

record cache_entry =
  mood_analysis :: MoodAnalysis
  cached_at :: int

type_synonym mood_cache = "string \<times> int \<times> int \<Rightarrow> cache_entry option"

text \<open>
  \<^verbatim>\<open>analyze_user_mood\<close> with the dictionary \<^verbatim>\<open>self.mood_cache\<close> passed
  in and out; \<open>now\<close> is the clock of the call.  A missing or empty user id gives the default
  analysis and leaves the cache alone.
\<close>

definition analyze_user_mood ::
  "mood_cache \<Rightarrow> int \<Rightarrow> user_context \<Rightarrow> MoodAnalysis \<times> mood_cache" where
  "analyze_user_mood cache now ctx =
    (case user_id ctx of
       None \<Rightarrow> (get_default_mood, cache)
     | Some uid \<Rightarrow>
        if uid = [] then (get_default_mood, cache)
        else
          (let key = cache_key uid now;
               fresh = compute_mood_analysis (hour_of now) ctx;
               stored = cache(key \<mapsto> \<lparr>mood_analysis = fresh, cached_at = now\<rparr>)
           in case cache key of
                Some cached_result \<Rightarrow>
                  if timedelta_seconds now (cached_at cached_result) < 1800
                  then (mood_analysis cached_result, cache)
                  else (fresh, stored)
              | None \<Rightarrow> (fresh, stored)))"

section \<open>Auxiliary notions for the statements\<close>

text \<open>The indicator types that \<^verbatim>\<open>_calculate_mood_indicators\<close> can emit.\<close>

definition EXTRACTED_TYPES :: "string list" where
  "EXTRACTED_TYPES = [''completion_rate'', ''overdue_tasks'', ''current_streak'', ''today_pomodoros'',
     ''activity_trend'', ''focus_quality'', ''overwhelm_level'', ''timing_alignment'']"

text \<open>All rule-condition keys of a rule table, mood by mood.\<close>

definition rule_keys :: "(string \<times> (string \<times> rule_condition) list) list \<Rightarrow> string list" where
  "rule_keys table = concat (map (\<lambda>entry. map fst (snd entry)) table)"

text \<open>The score dictionary in which every mood of the rule table has the score 0.\<close>

definition ZERO_SCORES :: "(string \<times> real) list" where
  "ZERO_SCORES = [(''motivated'', 0), (''struggling'', 0), (''focused'', 0),
     (''overwhelmed'', 0), (''celebrating'', 0), (''returning'', 0)]"

text \<open>The indicators of type \<open>timing_alignment\<close>.\<close>

definition is_timing :: "MoodIndicator \<Rightarrow> bool" where
  "is_timing ind = (indicator_type ind = ''timing_alignment'')"

text \<open>Reading one entry of a score dictionary.\<close>

definition lookup_score :: "(string \<times> real) list \<Rightarrow> string \<Rightarrow> real" where
  "lookup_score scores mood = (case map_of scores mood of None \<Rightarrow> 0 | Some v \<Rightarrow> v)"

text \<open>An indicator list with the value of its \<open>overdue_tasks\<close> indicators set to \<open>v\<close>
  and everything else kept.\<close>

definition with_overdue :: "real \<Rightarrow> MoodIndicator list \<Rightarrow> MoodIndicator list" where
  "with_overdue v inds =
     map (\<lambda>ind. if indicator_type ind = ''overdue_tasks'' then ind\<lparr>ind_value := v\<rparr> else ind) inds"

text \<open>The rules of the mood \<open>struggling\<close> in the rule table.\<close>

definition STRUGGLING_RULES :: "(string \<times> rule_condition) list" where
  "STRUGGLING_RULES =
    (case map_of MOOD_DETECTION_RULES ''struggling'' of None \<Rightarrow> [] | Some rules \<Rightarrow> rules)"

text \<open>The largest raw score of the five moods other than \<open>struggling\<close>.\<close>

definition others_max :: "int \<Rightarrow> user_context \<Rightarrow> real" where
  "others_max h ctx =
     max (calculate_motivated_score ctx)
      (max (calculate_focused_score h ctx)
        (max (calculate_overwhelmed_score ctx)
          (max (calculate_celebrating_score ctx) (calculate_returning_score ctx))))"

text \<open>The static insight of each mood, as a table keyed by the mood.\<close>

definition INSIGHT_TEMPLATES :: "(string \<times> string) list" where
  "INSIGHT_TEMPLATES =
    [(''motivated'', ''Voce esta em um excelente momento de produtividade!''),
     (''struggling'', ''Detectei alguns desafios em sua rotina''),
     (''focused'', ''Seu foco esta em alta qualidade''),
     (''overwhelmed'', ''Ha sinais de sobrecarga em suas atividades''),
     (''celebrating'', ''Parabens pelos resultados conquistados!''),
     (''returning'', ''Bem-vindo de volta a sua rotina produtiva'')]"

text \<open>The static recommendations of each mood, as a table keyed by the mood.\<close>

definition RECOMMENDATION_TEMPLATES :: "(string \<times> string list) list" where
  "RECOMMENDATION_TEMPLATES =
    [(''motivated'',
        [''Aproveite esse momento para tackle tarefas desafiadoras'',
         ''Considere aumentar suas metas diarias'']),
     (''struggling'',
        [''Comece com tarefas pequenas para reconstruir momentum'',
         ''Considere reduzir temporariamente suas expectativas'']),
     (''focused'',
        [''Continue no ritmo atual para maximizar a produtividade'',
         ''Evite interrupcoes durante este periodo de foco'']),
     (''overwhelmed'',
        [''Priorize apenas 3 tarefas mais importantes'',
         ''Considere delegar ou adiar tarefas menos criticas'']),
     (''celebrating'',
        [''Defina novas metas desafiadoras'',
         ''Compartilhe seus sucessos para manter motivacao'']),
     (''returning'',
        [''Comece gradualmente com tarefas simples'',
         ''Foque em reestabelecer sua rotina''])]"

text \<open>The indicators whose weight is at least 0.7, in the order of the list.\<close>

definition heavy_indicators :: "MoodIndicator list \<Rightarrow> MoodIndicator list" where
  "heavy_indicators inds = filter (\<lambda>ind. weight ind \<ge> 0.7) inds"



section \<open>The extracted indicators meet no rule\<close>

lemma extract_types:
  "indicator_type ` set (calculate_mood_indicators h ctx) \<subseteq> set EXTRACTED_TYPES"
  by (auto simp: calculate_mood_indicators_def EXTRACTED_TYPES_def Let_def split: option.splits)

lemma indicator_values_None:
  "k \<notin> indicator_type ` set inds \<Longrightarrow> indicator_values inds k = None"
  by (force simp: indicator_values_def map_of_eq_None_iff)

lemma apply_rule_absent:
  "fst rule \<notin> indicator_type ` set inds \<Longrightarrow> apply_rule inds acc rule = acc"
  by (simp add: apply_rule_def indicator_values_None)

lemma foldl_apply_rule_absent:
  "fst ` set rules \<inter> indicator_type ` set inds = {} \<Longrightarrow> foldl (apply_rule inds) acc rules = acc"
  by (induction rules arbitrary: acc) (auto simp: apply_rule_absent)

lemma mood_score_absent:
  "fst ` set rules \<inter> indicator_type ` set inds = {} \<Longrightarrow> mood_score inds mood rules = 0"
  by (simp add: mood_score_def foldl_apply_rule_absent)

lemma keys_disjoint: "set (rule_keys MOOD_DETECTION_RULES) \<inter> set EXTRACTED_TYPES = {}"
  by (simp add: rule_keys_def MOOD_DETECTION_RULES_def EXTRACTED_TYPES_def)

lemma apply_rules_table_absent:
  "set (rule_keys table) \<inter> indicator_type ` set inds = {}
   \<Longrightarrow> apply_rules_table table inds = map (\<lambda>entry. (fst entry, 0)) table"
proof (induction table)
  case Nil
  then show ?case by (simp add: apply_rules_table_def)
next
  case (Cons entry table)
  from Cons.prems have here: "fst ` set (snd entry) \<inter> indicator_type ` set inds = {}"
    and rest: "set (rule_keys table) \<inter> indicator_type ` set inds = {}"
    by (auto simp: rule_keys_def)
  from Cons.IH [OF rest] mood_score_absent [OF here] show ?case
    by (simp add: apply_rules_table_def split_beta)
qed

lemma extracted_scores_zero:
  "apply_detection_rules (calculate_mood_indicators h ctx) = ZERO_SCORES"
proof -
  have "set (rule_keys MOOD_DETECTION_RULES)
        \<inter> indicator_type ` set (calculate_mood_indicators h ctx) = {}"
    using keys_disjoint extract_types [of h ctx] by blast
  then have "apply_detection_rules (calculate_mood_indicators h ctx)
             = map (\<lambda>entry. (fst entry, 0)) MOOD_DETECTION_RULES"
    unfolding apply_detection_rules_def by (rule apply_rules_table_absent)
  also have "\<dots> = ZERO_SCORES"
    by (simp add: MOOD_DETECTION_RULES_def ZERO_SCORES_def)
  finally show ?thesis .
qed

lemma primary_of_zero: "determine_primary_mood ZERO_SCORES = (''encouraging'', 0.5)"
  by (simp add: determine_primary_mood_def ZERO_SCORES_def)

lemma detect_mood_encouraging:
  "res_current_mood (fst (detect_current_mood db h now uid ctx)) = ''encouraging''"
  by (simp add: detect_current_mood_def Let_def extracted_scores_zero primary_of_zero)

lemma detect_confidence_half:
  "res_confidence (fst (detect_current_mood db h now uid ctx)) = 0.5"
  by (simp add: detect_current_mood_def Let_def extracted_scores_zero primary_of_zero)


lemma detect_recommendations_empty:
  "res_recommendations (fst (detect_current_mood db h now uid ctx)) = []"
  by (simp add: detect_current_mood_def Let_def extracted_scores_zero primary_of_zero
      generate_mood_recommendations_def)

text \<open>
  Claim C2.  Whatever the user context and the clock, no indicator type that the extractor
  emits is a rule-condition key of any mood in \<open>MOOD_DETECTION_RULES\<close>.  So
  \<^verbatim>\<open>_apply_detection_rules\<close> leaves \<open>total_weight\<close> at 0 and gives every mood the
  score 0, and \<^verbatim>\<open>detect_current_mood\<close> answers with the mood
  \<open>encouraging\<close> and the confidence 0.5; the result of its \<^verbatim>\<open>except\<close> branch
  carries the same mood and confidence.
\<close>

theorem extracted_indicators_never_score:
  "set (rule_keys MOOD_DETECTION_RULES)
     \<inter> indicator_type ` set (calculate_mood_indicators h ctx) = {}
   \<and> foldl (apply_rule (calculate_mood_indicators h ctx)) (0, 0)
         (concat (map snd MOOD_DETECTION_RULES)) = (0, 0)
   \<and> apply_detection_rules (calculate_mood_indicators h ctx) = ZERO_SCORES
   \<and> res_current_mood (fst (detect_current_mood db h now uid ctx)) = ''encouraging''
   \<and> res_confidence (fst (detect_current_mood db h now uid ctx)) = 0.5
   \<and> res_current_mood get_default_mood_detection = ''encouraging''
   \<and> res_confidence get_default_mood_detection = 0.5"
proof -
  have disjoint: "set (rule_keys MOOD_DETECTION_RULES)
        \<inter> indicator_type ` set (calculate_mood_indicators h ctx) = {}"
    using keys_disjoint extract_types [of h ctx] by blast
  then have "fst ` set (concat (map snd MOOD_DETECTION_RULES))
        \<inter> indicator_type ` set (calculate_mood_indicators h ctx) = {}"
    by (auto simp: rule_keys_def)
  then have weight: "foldl (apply_rule (calculate_mood_indicators h ctx)) (0, 0)
         (concat (map snd MOOD_DETECTION_RULES)) = (0, 0)"
    by (rule foldl_apply_rule_absent)
  show ?thesis
    using disjoint weight
    by (simp add: extracted_scores_zero detect_mood_encouraging detect_confidence_half
        get_default_mood_detection_def)
qed

text \<open>
  Claim C1, evaluated on the code.  For the snapshot with 8 tasks, 1 completed, 4 overdue,
  a streak of 0 and no pomodoro today, the bonus of the mood \<open>struggling\<close> is computed as
  1.1, yet the classification returns the mood \<open>encouraging\<close> with confidence 0.5 and an
  empty list of recommendations: the bonus is discarded with the zero total weight.
\<close>

theorem overdue_scenario_classified_encouraging:
  "calculate_struggling_bonus (indicator_values (calculate_mood_indicators h
      \<lparr>user_id = Some uid, total_tasks = 8, completed_tasks = 1, overdue_tasks = 4,
       pending_tasks = 7, recent_activity = [], current_streak = 0, today_pomodoros = [],
       peak_hour = None, lumi_memory = None\<rparr>)) = 1.1
   \<and> res_current_mood (fst (detect_current_mood db h now uid
      \<lparr>user_id = Some uid, total_tasks = 8, completed_tasks = 1, overdue_tasks = 4,
       pending_tasks = 7, recent_activity = [], current_streak = 0, today_pomodoros = [],
       peak_hour = None, lumi_memory = None\<rparr>)) = ''encouraging''
   \<and> res_confidence (fst (detect_current_mood db h now uid
      \<lparr>user_id = Some uid, total_tasks = 8, completed_tasks = 1, overdue_tasks = 4,
       pending_tasks = 7, recent_activity = [], current_streak = 0, today_pomodoros = [],
       peak_hour = None, lumi_memory = None\<rparr>)) = 0.5
   \<and> res_recommendations (fst (detect_current_mood db h now uid
      \<lparr>user_id = Some uid, total_tasks = 8, completed_tasks = 1, overdue_tasks = 4,
       pending_tasks = 7, recent_activity = [], current_streak = 0, today_pomodoros = [],
       peak_hour = None, lumi_memory = None\<rparr>)) = []"
proof -
  have "calculate_struggling_bonus (indicator_values (calculate_mood_indicators h
      \<lparr>user_id = Some uid, total_tasks = 8, completed_tasks = 1, overdue_tasks = 4,
       pending_tasks = 7, recent_activity = [], current_streak = 0, today_pomodoros = [],
       peak_hour = None, lumi_memory = None\<rparr>)) = 1.1"
    by (simp add: calculate_struggling_bonus_def get0_def indicator_values_def
        calculate_mood_indicators_def today_completed_pomodoros_def Let_def)
  then show ?thesis
    by (simp only: detect_mood_encouraging detect_confidence_half
        detect_recommendations_empty simp_thms)
qed

section \<open>Transition tracker: the rule\<close>

lemma transition_none_cases:
  "analyze_transition_of (Inl e) now cur = None"
  "analyze_transition_of (Inr None) now cur = None"
  "analyze_transition_of (Inr (Some (cur, ts))) now cur = None"
  by (simp_all add: analyze_transition_of_def)

lemma transition_some_case:
  "prev \<noteq> cur \<Longrightarrow> analyze_transition_of (Inr (Some (prev, ts))) now cur =
     Some \<lparr>from_mood = prev, to_mood = cur, timestamp = now,
           trigger_factors = identify_transition_triggers prev cur, confidence = 0.7\<rparr>"
  by (simp add: analyze_transition_of_def)

lemma unknown_pair_no_trigger:
  "\<not> (from_m = ''motivated'' \<and> to_m = ''overwhelmed'') \<Longrightarrow>
   \<not> (from_m = ''struggling'' \<and> to_m = ''motivated'') \<Longrightarrow>
   \<not> (from_m = ''focused'' \<and> to_m = ''celebrating'') \<Longrightarrow>
   to_m \<noteq> ''returning'' \<Longrightarrow> identify_transition_triggers from_m to_m = []"
  by (simp add: identify_transition_triggers_def)

lemma known_pair_triggers:
  "identify_transition_triggers ''motivated'' ''overwhelmed'' = [''Aumento na carga de trabalho'']"
  "identify_transition_triggers ''struggling'' ''motivated''
     = [''Conclusao de tarefas pendentes'']"
  "identify_transition_triggers ''focused'' ''celebrating'' = [''Atingimento de objetivos'']"
  "identify_transition_triggers from_m ''returning'' = [''Retorno apos periodo de inatividade'']"
  by (simp_all add: identify_transition_triggers_def)

lemma detect_transition:
  "res_transition (fst (detect_current_mood db h now uid ctx))
     = analyze_mood_transition db now uid ''encouraging''"
  by (simp add: detect_current_mood_def Let_def extracted_scores_zero primary_of_zero)

text \<open>
  Claim C6.  The transition is \<open>None\<close> when the read of the previous mood fails, when the
  user has no stored row, and when the stored mood equals the new one.  Otherwise it is the
  transition from the stored mood to the new one with confidence 0.7 and the trigger factors
  of \<^verbatim>\<open>_identify_transition_triggers\<close>.  That lookup gives one trigger to each
  known pair: motivated to overwhelmed, struggling to motivated, focused to celebrating,
  and any mood to returning; it gives the empty list to every other pair.  A classification
  without a readable stored row carries no transition.
\<close>

theorem transition_tracker_rule:
  "(fetch_previous_mood db uid = Inl e \<longrightarrow> analyze_mood_transition db now uid cur = None)
   \<and> (fetch_previous_mood db uid = Inr None \<longrightarrow> analyze_mood_transition db now uid cur = None)
   \<and> (fetch_previous_mood db uid = Inr (Some (cur, ts))
        \<longrightarrow> analyze_mood_transition db now uid cur = None)
   \<and> (fetch_previous_mood db uid = Inr (Some (prev, ts)) \<and> prev \<noteq> cur
        \<longrightarrow> analyze_mood_transition db now uid cur =
            Some \<lparr>from_mood = prev, to_mood = cur, timestamp = now,
                  trigger_factors = identify_transition_triggers prev cur, confidence = 0.7\<rparr>)
   \<and> (\<not> (from_m = ''motivated'' \<and> to_m = ''overwhelmed'')
        \<and> \<not> (from_m = ''struggling'' \<and> to_m = ''motivated'')
        \<and> \<not> (from_m = ''focused'' \<and> to_m = ''celebrating'')
        \<and> to_m \<noteq> ''returning''
        \<longrightarrow> identify_transition_triggers from_m to_m = [])
   \<and> (\<not> db_available db \<or> lumi_memory_rows db uid = None
        \<longrightarrow> res_transition (fst (detect_current_mood db h now uid ctx)) = None)
   \<and> identify_transition_triggers ''motivated'' ''overwhelmed''
       = [''Aumento na carga de trabalho'']
   \<and> identify_transition_triggers ''struggling'' ''motivated''
       = [''Conclusao de tarefas pendentes'']
   \<and> identify_transition_triggers ''focused'' ''celebrating'' = [''Atingimento de objetivos'']
   \<and> identify_transition_triggers from_m ''returning''
       = [''Retorno apos periodo de inatividade'']"
  by (auto simp: analyze_mood_transition_def transition_none_cases transition_some_case
      unknown_pair_no_trigger detect_transition fetch_previous_mood_def known_pair_triggers)

text \<open>The rule at concrete databases: unavailable, without a row, with the same mood, and
  with a different mood, for two known pairs and one unknown pair.\<close>

theorem transition_tracker_rule_witness:
  "analyze_mood_transition \<lparr>db_available = False, lumi_memory_rows = Map.empty\<rparr> 500 ''u1''
      ''motivated'' = None
   \<and> analyze_mood_transition \<lparr>db_available = True, lumi_memory_rows = Map.empty\<rparr> 500 ''u1''
      ''motivated'' = None
   \<and> analyze_mood_transition
        \<lparr>db_available = True, lumi_memory_rows = [''u1'' \<mapsto> (''motivated'', 100)]\<rparr> 500 ''u1''
        ''motivated'' = None
   \<and> analyze_mood_transition
        \<lparr>db_available = True, lumi_memory_rows = [''u1'' \<mapsto> (''motivated'', 100)]\<rparr> 500 ''u1''
        ''overwhelmed'' =
        Some \<lparr>from_mood = ''motivated'', to_mood = ''overwhelmed'', timestamp = 500,
              trigger_factors = [''Aumento na carga de trabalho''], confidence = 0.7\<rparr>
   \<and> identify_transition_triggers ''celebrating'' ''focused'' = []
   \<and> analyze_mood_transition
        \<lparr>db_available = True, lumi_memory_rows = [''u1'' \<mapsto> (''motivated'', 100)]\<rparr> 500 ''u1''
        ''returning'' =
        Some \<lparr>from_mood = ''motivated'', to_mood = ''returning'', timestamp = 500,
              trigger_factors = [''Retorno apos periodo de inatividade''], confidence = 0.7\<rparr>
   \<and> res_transition (fst (detect_current_mood
        \<lparr>db_available = True, lumi_memory_rows = Map.empty\<rparr> 9 500 ''u1''
        \<lparr>user_id = Some ''u1'', total_tasks = 8, completed_tasks = 1, overdue_tasks = 4,
         pending_tasks = 7, recent_activity = [], current_streak = 0, today_pomodoros = [],
         peak_hour = None, lumi_memory = None\<rparr>)) = None"
proof -
  let ?down = "\<lparr>db_available = False, lumi_memory_rows = Map.empty\<rparr>"
  let ?fresh = "\<lparr>db_available = True, lumi_memory_rows = Map.empty\<rparr>"
  let ?known = "\<lparr>db_available = True, lumi_memory_rows = [''u1'' \<mapsto> (''motivated'', 100::int)]\<rparr>"
  let ?ctx = "\<lparr>user_id = Some ''u1'', total_tasks = 8, completed_tasks = 1, overdue_tasks = 4,
         pending_tasks = 7, recent_activity = [], current_streak = 0, today_pomodoros = [],
         peak_hour = None, lumi_memory = None\<rparr>"
  have a: "fetch_previous_mood ?down ''u1'' = Inl DatabaseError"
    by (simp add: fetch_previous_mood_def)
  have b: "fetch_previous_mood ?fresh ''u1'' = Inr None"
    by (simp add: fetch_previous_mood_def)
  have c: "fetch_previous_mood ?known ''u1'' = Inr (Some (''motivated'', 100))"
    by (simp add: fetch_previous_mood_def)
  have d: "''motivated'' \<noteq> ''overwhelmed''" by simp
  have d': "''motivated'' \<noteq> ''returning''" by simp
  from transition_tracker_rule [of ?known "''u1''" DatabaseError 500 "''motivated''"]
  have t: "identify_transition_triggers ''motivated'' ''overwhelmed''
            = [''Aumento na carga de trabalho'']" by blast
  from transition_tracker_rule [of ?known "''u1''" DatabaseError 500 "''motivated''" 100
       "''motivated''" "''motivated''"]
  have t': "identify_transition_triggers ''motivated'' ''returning''
            = [''Retorno apos periodo de inatividade'']" by blast
  from transition_tracker_rule
    [of ?known "''u1''" DatabaseError 500 "''returning''" 100 "''motivated''"] c d'
  have 7: "analyze_mood_transition ?known 500 ''u1'' ''returning'' =
        Some \<lparr>from_mood = ''motivated'', to_mood = ''returning'', timestamp = 500,
              trigger_factors = identify_transition_triggers ''motivated'' ''returning'',
              confidence = 0.7\<rparr>" by blast
  from transition_tracker_rule [of ?down "''u1''" DatabaseError 500 "''motivated''"] a
  have 1: "analyze_mood_transition ?down 500 ''u1'' ''motivated'' = None" by blast
  from transition_tracker_rule [of ?fresh "''u1''" DatabaseError 500 "''motivated''"] b
  have 2: "analyze_mood_transition ?fresh 500 ''u1'' ''motivated'' = None" by blast
  from transition_tracker_rule [of ?known "''u1''" DatabaseError 500 "''motivated''" 100] c
  have 3: "analyze_mood_transition ?known 500 ''u1'' ''motivated'' = None" by blast
  from transition_tracker_rule
    [of ?known "''u1''" DatabaseError 500 "''overwhelmed''" 100 "''motivated''"] c d
  have 4: "analyze_mood_transition ?known 500 ''u1'' ''overwhelmed'' =
        Some \<lparr>from_mood = ''motivated'', to_mood = ''overwhelmed'', timestamp = 500,
              trigger_factors = identify_transition_triggers ''motivated'' ''overwhelmed'',
              confidence = 0.7\<rparr>" by blast
  from transition_tracker_rule
    [of ?fresh "''u1''" DatabaseError 500 "''motivated''" 100 "''motivated''"
        "''celebrating''" "''focused''"]
  have 5: "identify_transition_triggers ''celebrating'' ''focused'' = []" by simp
  from transition_tracker_rule
    [of ?fresh "''u1''" DatabaseError 500 "''motivated''" 100 "''motivated''"
        "''celebrating''" "''focused''" 9 ?ctx]
  have 6: "res_transition (fst (detect_current_mood ?fresh 9 500 ''u1'' ?ctx)) = None" by simp
  from 1 2 3 4 5 6 7 t t' show ?thesis by simp
qed

section \<open>History analyzer: the threshold\<close>






section \<open>Insights and recommendations: the bounds\<close>

lemma insights_shape:
  "generate_mood_insights mood inds tr =
     (case map_of INSIGHT_TEMPLATES mood of None \<Rightarrow> [] | Some t \<Rightarrow> [Static t])
     @ map description (take 2 (heavy_indicators inds))
     @ (case tr of None \<Rightarrow> [] | Some t \<Rightarrow> [TransitionLine (from_mood t) (to_mood t)])"
  by (simp add: generate_mood_insights_def INSIGHT_TEMPLATES_def heavy_indicators_def)

lemma recommendations_shape:
  "generate_mood_recommendations mood inds =
     (case map_of RECOMMENDATION_TEMPLATES mood of None \<Rightarrow> [] | Some ts \<Rightarrow> map Static ts)"
  by (simp add: generate_mood_recommendations_def RECOMMENDATION_TEMPLATES_def)

lemma insights_length: "length (generate_mood_insights mood inds tr) \<le> 4"
  by (simp add: generate_mood_insights_def min_le_iff_disj split: option.splits)

lemma insights_length_no_transition: "length (generate_mood_insights mood inds None) \<le> 3"
  by (simp add: generate_mood_insights_def min_le_iff_disj)

lemma recommendations_length: "length (generate_mood_recommendations mood inds) \<le> 2"
  by (simp add: generate_mood_recommendations_def)

text \<open>
  Claim C9, as the code has it.  The insights are, in this order: the static insight of the
  mood (none for a mood outside the table), the descriptions of the first two indicators of
  the list whose weight is at least 0.7 (of the only one, or none, when there are fewer),
  and the transition line when there is a transition.  So there are at most 4 insights, and
  at most 3 without a transition.  The recommendations are the static recommendations of
  the mood, at most 2 (none for a mood outside the table), whatever the indicators.
\<close>

theorem insights_and_recommendations_shape:
  "generate_mood_insights mood inds tr =
     (case map_of INSIGHT_TEMPLATES mood of None \<Rightarrow> [] | Some t \<Rightarrow> [Static t])
     @ map description (take 2 (heavy_indicators inds))
     @ (case tr of None \<Rightarrow> [] | Some t \<Rightarrow> [TransitionLine (from_mood t) (to_mood t)])
   \<and> generate_mood_recommendations mood inds =
     (case map_of RECOMMENDATION_TEMPLATES mood of None \<Rightarrow> [] | Some ts \<Rightarrow> map Static ts)
   \<and> length (generate_mood_insights mood inds tr) \<le> 4
   \<and> length (generate_mood_insights mood inds None) \<le> 3
   \<and> length (generate_mood_recommendations mood inds) \<le> 2"
  using insights_shape [of mood inds tr] recommendations_shape [of mood inds]
    insights_length [of mood inds tr] insights_length_no_transition [of mood inds]
    recommendations_length [of mood inds]
  by blast

text \<open>Four insights: the template of the mood, two indicator descriptions and the
  transition line.\<close>

theorem four_insights_counterexample:
  "length (generate_mood_insights ''motivated''
      [\<lparr>indicator_type = ''completion_rate'', ind_value = 0.9, weight = 0.8,
        description = Formatted ''Taxa de conclusao: {:.1%}'' 0.9\<rparr>,
       \<lparr>indicator_type = ''current_streak'', ind_value = 8, weight = 0.7,
        description = Formatted ''Sequencia de {} dias'' 8\<rparr>]
      (Some \<lparr>from_mood = ''struggling'', to_mood = ''motivated'', timestamp = 500,
             trigger_factors = [''Conclusao de tarefas pendentes''], confidence = 0.7\<rparr>)) = 4"
  by (simp add: generate_mood_insights_def)

section \<open>Timing alignment\<close>


text \<open>
  Claim C10, evaluated on the code.  With the peak hour 0 (midnight) the extractor emits no
  \<open>timing_alignment\<close> indicator, whatever the clock: at the hour 1 the claim asks for the
  value \<open>1 - 1/12\<close>.  With the peak hour 1 at the hour 1 the indicator is emitted with the
  value 1.
\<close>

theorem midnight_peak_hour_omitted:
  "filter is_timing (calculate_mood_indicators h (ctx\<lparr>peak_hour := Some 0\<rparr>)) = []
   \<and> map ind_value (filter is_timing (calculate_mood_indicators 1 (ctx\<lparr>peak_hour := Some 1\<rparr>)))
       = [1]
   \<and> map ind_value (filter is_timing (calculate_mood_indicators 1 (ctx\<lparr>peak_hour := Some 0\<rparr>)))
       \<noteq> [1 - 1 / 12]"
  by (simp add: calculate_mood_indicators_def Let_def is_timing_def)

section \<open>Ranges of scores and confidence\<close>







section \<open>Monotonicity of the struggling score\<close>

lemma indicator_values_snoc:
  "indicator_values (inds @ [i]) = (indicator_values inds)(indicator_type i \<mapsto> ind_value i)"
  by (simp add: indicator_values_def)

lemma with_overdue_snoc:
  "with_overdue v (inds @ [i]) = with_overdue v inds @ with_overdue v [i]"
  by (simp add: with_overdue_def)

lemma indicator_values_with_overdue_other:
  "k \<noteq> ''overdue_tasks'' \<Longrightarrow> indicator_values (with_overdue v inds) k = indicator_values inds k"
proof (induction inds rule: rev_induct)
  case Nil
  then show ?case by (simp add: with_overdue_def)
next
  case (snoc i inds)
  show ?case
  proof (cases "indicator_type i = ''overdue_tasks''")
    case True
    then have "with_overdue v (inds @ [i]) = with_overdue v inds @ [i\<lparr>ind_value := v\<rparr>]"
      by (simp add: with_overdue_def)
    then show ?thesis using snoc True by (simp add: indicator_values_snoc)
  next
    case False
    then have "with_overdue v (inds @ [i]) = with_overdue v inds @ [i]"
      by (simp add: with_overdue_def)
    then show ?thesis using snoc by (simp add: indicator_values_snoc)
  qed
qed

lemma indicator_values_with_overdue_same:
  "indicator_values (with_overdue v inds) ''overdue_tasks''
     = (if ''overdue_tasks'' \<in> indicator_type ` set inds then Some v else None)"
proof (induction inds rule: rev_induct)
  case Nil
  then show ?case by (simp add: with_overdue_def indicator_values_def)
next
  case (snoc i inds)
  show ?case
  proof (cases "indicator_type i = ''overdue_tasks''")
    case True
    then have "with_overdue v (inds @ [i]) = with_overdue v inds @ [i\<lparr>ind_value := v\<rparr>]"
      by (simp add: with_overdue_def)
    then show ?thesis using True by (simp add: indicator_values_snoc)
  next
    case False
    then have "with_overdue v (inds @ [i]) = with_overdue v inds @ [i]"
      by (simp add: with_overdue_def)
    then show ?thesis using snoc False by (simp add: indicator_values_snoc)
  qed
qed

lemma first_weight_with_overdue: "first_weight k (with_overdue v inds) = first_weight k inds"
  by (induction inds) (simp_all add: with_overdue_def)

lemma apply_rule_with_overdue:
  "fst rule \<noteq> ''overdue_tasks'' \<Longrightarrow>
   apply_rule (with_overdue v inds) acc rule = apply_rule inds acc rule"
  by (simp add: apply_rule_def indicator_values_with_overdue_other first_weight_with_overdue
      split: option.splits)

lemma foldl_apply_rule_with_overdue:
  "''overdue_tasks'' \<notin> fst ` set rules \<Longrightarrow>
   foldl (apply_rule (with_overdue v inds)) acc rules = foldl (apply_rule inds) acc rules"
  by (induction rules arbitrary: acc) (auto simp: apply_rule_with_overdue)

lemma struggling_bonus_mono:
  assumes "v \<le> v'"
  shows "calculate_struggling_bonus (indicator_values (with_overdue v inds))
         \<le> calculate_struggling_bonus (indicator_values (with_overdue v' inds))"
proof -
  have other: "\<And>k. k \<noteq> ''overdue_tasks'' \<Longrightarrow>
      get0 (indicator_values (with_overdue v inds)) k
      = get0 (indicator_values (with_overdue v' inds)) k"
    by (simp add: get0_def indicator_values_with_overdue_other)
  have a: "get0 (indicator_values (with_overdue v inds)) ''completion_rate''
      = get0 (indicator_values (with_overdue v' inds)) ''completion_rate''"
    by (rule other) simp
  have b: "get0 (indicator_values (with_overdue v inds)) ''current_streak''
      = get0 (indicator_values (with_overdue v' inds)) ''current_streak''"
    by (rule other) simp
  have c: "get0 (indicator_values (with_overdue v inds)) ''today_pomodoros''
      = get0 (indicator_values (with_overdue v' inds)) ''today_pomodoros''"
    by (rule other) simp
  have d: "get0 (indicator_values (with_overdue v inds)) ''overdue_tasks''
      \<le> get0 (indicator_values (with_overdue v' inds)) ''overdue_tasks''"
    using assms by (simp add: get0_def indicator_values_with_overdue_same)
  have e: "(if get0 (indicator_values (with_overdue v inds)) ''overdue_tasks'' \<ge> 2
             then 0.4 else (0::real))
        \<le> (if get0 (indicator_values (with_overdue v' inds)) ''overdue_tasks'' \<ge> 2
             then 0.4 else 0)"
    using d by auto
  show ?thesis
    unfolding calculate_struggling_bonus_def a b c using e by linarith
qed

lemma mood_score_struggling_mono:
  assumes "v \<le> v'" "''overdue_tasks'' \<notin> fst ` set rules"
  shows "mood_score (with_overdue v inds) ''struggling'' rules
         \<le> mood_score (with_overdue v' inds) ''struggling'' rules"
proof -
  have same: "foldl (apply_rule (with_overdue v inds)) (0, 0) rules
            = foldl (apply_rule (with_overdue v' inds)) (0, 0) rules"
    using assms(2) by (simp add: foldl_apply_rule_with_overdue)
  have bonus: "mood_bonus ''struggling'' (indicator_values (with_overdue v inds))
             \<le> mood_bonus ''struggling'' (indicator_values (with_overdue v' inds))"
    using struggling_bonus_mono [OF assms(1)] by (simp add: mood_bonus_def)
  show ?thesis
    unfolding mood_score_def Let_def same
    using bonus by (simp add: divide_right_mono)
qed

lemma lookup_struggling:
  "lookup_score (apply_detection_rules inds) ''struggling''
     = mood_score inds ''struggling'' STRUGGLING_RULES"
  by (simp add: lookup_score_def apply_detection_rules_def apply_rules_table_def
      MOOD_DETECTION_RULES_def STRUGGLING_RULES_def)

lemma struggling_rules_keys: "''overdue_tasks'' \<notin> fst ` set STRUGGLING_RULES"
  by (simp add: STRUGGLING_RULES_def MOOD_DETECTION_RULES_def)

lemma detector_struggling_mono:
  "v \<le> v' \<Longrightarrow> lookup_score (apply_detection_rules (with_overdue v inds)) ''struggling''
     \<le> lookup_score (apply_detection_rules (with_overdue v' inds)) ''struggling''"
  by (simp add: lookup_struggling mood_score_struggling_mono struggling_rules_keys)

lemma min_shift_mono: "a \<le> b \<Longrightarrow> min (a + x + y + z) 1 \<le> min (b + x + y + z) (1::real)"
  by simp

lemma overdue_term_mono:
  "o1 \<le> o2 \<Longrightarrow>
   (if 2 \<le> o1 then 0.3 + min (real_of_int o1 * 0.1) 0.2 else 0)
   \<le> (if 2 \<le> o2 then 0.3 + min (real_of_int o2 * 0.1) 0.2 else (0::real))"
  by (auto simp: min_def)

lemma struggling_score_mono:
  assumes "o1 \<le> o2"
  shows "calculate_struggling_score (ctx\<lparr>overdue_tasks := o1\<rparr>)
         \<le> calculate_struggling_score (ctx\<lparr>overdue_tasks := o2\<rparr>)"
proof -
  define x :: real where
    "x = (if total_tasks ctx > 0 \<and> completion_rate_of ctx < 0.3 then 0.3 else 0)"
  define y :: real where "y = (if current_streak ctx = 0 then 0.2 else 0)"
  define z :: real where
    "z = (if length (recent_activity ctx) \<ge> 3
             \<and> non_increasing (map tasks_completed (take 3 (recent_activity ctx)))
          then 0.2 else 0)"
  have shape: "calculate_struggling_score (ctx\<lparr>overdue_tasks := v\<rparr>)
      = min ((if 2 \<le> v then 0.3 + min (real_of_int v * 0.1) 0.2 else 0) + x + y + z) 1" for v
    unfolding calculate_struggling_score_def completion_rate_of_def x_def y_def z_def
    by simp
  show ?thesis
    unfolding shape using overdue_term_mono [OF assms] by (rule min_shift_mono)
qed

lemma struggling_score_nonneg: "0 \<le> calculate_struggling_score ctx"
  by (simp add: calculate_struggling_score_def)

lemma motivated_score_nonneg: "0 \<le> calculate_motivated_score ctx"
  by (simp add: calculate_motivated_score_def)

lemma focused_score_nonneg: "0 \<le> calculate_focused_score h ctx"
  by (simp add: calculate_focused_score_def Let_def split: option.splits)

lemma overwhelmed_score_nonneg: "0 \<le> calculate_overwhelmed_score ctx"
  by (simp add: calculate_overwhelmed_score_def Let_def)

lemma celebrating_score_nonneg: "0 \<le> calculate_celebrating_score ctx"
  by (simp add: calculate_celebrating_score_def Let_def)

lemma returning_score_nonneg: "0 \<le> calculate_returning_score ctx"
  by (simp add: calculate_returning_score_def Let_def split: option.splits)

lemma other_scores_ignore_overdue:
  "calculate_motivated_score (ctx\<lparr>overdue_tasks := v\<rparr>) = calculate_motivated_score ctx"
  "calculate_focused_score h (ctx\<lparr>overdue_tasks := v\<rparr>) = calculate_focused_score h ctx"
  "calculate_overwhelmed_score (ctx\<lparr>overdue_tasks := v\<rparr>) = calculate_overwhelmed_score ctx"
  "calculate_celebrating_score (ctx\<lparr>overdue_tasks := v\<rparr>) = calculate_celebrating_score ctx"
  "calculate_returning_score (ctx\<lparr>overdue_tasks := v\<rparr>) = calculate_returning_score ctx"
  by (simp_all add: calculate_motivated_score_def calculate_focused_score_def
      calculate_overwhelmed_score_def calculate_celebrating_score_def
      calculate_returning_score_def completion_rate_of_def split: option.splits)

lemma share_mono:
  fixes s s' K :: real
  assumes "0 \<le> K" "0 \<le> s" "s \<le> s'"
  shows "(if max s K > 0 then s / max s K else s) \<le> (if max s' K > 0 then s' / max s' K else s')"
proof (cases "max s K > 0")
  case False
  then have "s = 0" using assms by (simp add: max_def split: if_splits)
  then show ?thesis using assms by simp
next
  case True
  then have pos': "max s' K > 0" using assms by (auto simp: max_def split: if_splits)
  have "s * max s' K \<le> s' * max s K"
  proof (cases "K \<le> s")
    case True
    then have "max s K = s" "max s' K = s'" using assms by simp_all
    then show ?thesis by (simp add: mult.commute)
  next
    case False
    then have sk: "s < K" by simp
    show ?thesis
    proof (cases "K \<le> s'")
      case True
      have "0 \<le> s'" using assms by simp
      with sk have "s * s' \<le> K * s'" by (simp add: mult_right_mono)
      then have "s * s' \<le> s' * K" by (simp add: mult.commute)
      then show ?thesis using True sk by (simp add: max_def)
    next
      case False
      have "s * K \<le> s' * K" using assms by (simp add: mult_right_mono)
      then show ?thesis using False sk by (simp add: max_def)
    qed
  qed
  then have "s / max s K \<le> s' / max s' K"
    using True pos' by (simp add: field_simps)
  then show ?thesis using True pos' by simp
qed

lemma others_max_nonneg: "0 \<le> others_max h ctx"
  unfolding others_max_def using motivated_score_nonneg [of ctx] by (simp add: le_max_iff_disj)

lemma others_max_ignores_overdue: "others_max h (ctx\<lparr>overdue_tasks := v\<rparr>) = others_max h ctx"
  by (simp only: others_max_def other_scores_ignore_overdue)

lemma max_value_six:
  "max_value m [s, f, ov, c, r] = max s (max m (max f (max ov (max c r))))"
  by (simp add: max.assoc max.left_commute max.commute)

lemma normalized_struggling:
  "lookup_score (calculate_mood_scores h ctx) ''struggling''
     = (if max (calculate_struggling_score ctx) (others_max h ctx) > 0
        then calculate_struggling_score ctx / max (calculate_struggling_score ctx) (others_max h ctx)
        else calculate_struggling_score ctx)"
proof -
  have m: "max_value (calculate_motivated_score ctx)
      [calculate_struggling_score ctx, calculate_focused_score h ctx,
       calculate_overwhelmed_score ctx, calculate_celebrating_score ctx,
       calculate_returning_score ctx]
     = max (calculate_struggling_score ctx) (others_max h ctx)"
    unfolding others_max_def by (rule max_value_six)
  show ?thesis
    unfolding calculate_mood_scores_def raw_mood_scores_def normalize_scores_def
      lookup_score_def Let_def list.map list.case fst_conv snd_conv m
    by simp
qed

lemma engine_struggling_mono:
  assumes "o1 \<le> o2"
  shows "lookup_score (calculate_mood_scores h (ctx\<lparr>overdue_tasks := o1\<rparr>)) ''struggling''
       \<le> lookup_score (calculate_mood_scores h (ctx\<lparr>overdue_tasks := o2\<rparr>)) ''struggling''"
  unfolding normalized_struggling others_max_ignores_overdue
  using others_max_nonneg struggling_score_nonneg struggling_score_mono [OF assms]
  by (rule share_mono)

text \<open>
  Claim C5.  Raising the value of the \<open>overdue_tasks\<close> indicator, with every other
  indicator kept, never lowers the bonus nor the score of \<open>struggling\<close> in the mood
  detector, on indicator lists as on user contexts; and raising the overdue count of a
  context never lowers the raw nor the normalised \<open>struggling\<close> score of the personality
  engine.
\<close>

theorem struggling_monotone_in_overdue:
  "(v \<le> v' \<longrightarrow>
      calculate_struggling_bonus (indicator_values (with_overdue v inds))
        \<le> calculate_struggling_bonus (indicator_values (with_overdue v' inds))
      \<and> lookup_score (apply_detection_rules (with_overdue v inds)) ''struggling''
        \<le> lookup_score (apply_detection_rules (with_overdue v' inds)) ''struggling'')
   \<and> (o1 \<le> o2 \<longrightarrow>
      lookup_score (apply_detection_rules
          (calculate_mood_indicators h (ctx\<lparr>overdue_tasks := o1\<rparr>))) ''struggling''
        \<le> lookup_score (apply_detection_rules
          (calculate_mood_indicators h (ctx\<lparr>overdue_tasks := o2\<rparr>))) ''struggling''
      \<and> calculate_struggling_score (ctx\<lparr>overdue_tasks := o1\<rparr>)
        \<le> calculate_struggling_score (ctx\<lparr>overdue_tasks := o2\<rparr>)
      \<and> lookup_score (calculate_mood_scores h (ctx\<lparr>overdue_tasks := o1\<rparr>)) ''struggling''
        \<le> lookup_score (calculate_mood_scores h (ctx\<lparr>overdue_tasks := o2\<rparr>)) ''struggling'')"
  using struggling_bonus_mono [of v v' inds] detector_struggling_mono [of v v' inds]
    struggling_score_mono [of o1 o2 ctx] engine_struggling_mono [of o1 o2 h ctx]
  by (simp add: extracted_scores_zero)

text \<open>The monotonicity between the values 1 and 4 of an indicator list that meets a rule
  of \<open>struggling\<close>, and between 0 and 4 overdue tasks of a context.\<close>

theorem struggling_monotone_in_overdue_witness:
  "lookup_score (apply_detection_rules (with_overdue 1
      [\<lparr>indicator_type = ''overdue_tasks'', ind_value = 0, weight = 0.9,
        description = Formatted ''{} tarefas em atraso'' 0\<rparr>,
       \<lparr>indicator_type = ''tasks_overdue'', ind_value = 5, weight = 0.5,
        description = Formatted ''{} tarefas em atraso'' 5\<rparr>])) ''struggling''
    \<le> lookup_score (apply_detection_rules (with_overdue 4
      [\<lparr>indicator_type = ''overdue_tasks'', ind_value = 0, weight = 0.9,
        description = Formatted ''{} tarefas em atraso'' 0\<rparr>,
       \<lparr>indicator_type = ''tasks_overdue'', ind_value = 5, weight = 0.5,
        description = Formatted ''{} tarefas em atraso'' 5\<rparr>])) ''struggling''
   \<and> calculate_struggling_score
        (\<lparr>user_id = Some ''u1'', total_tasks = 8, completed_tasks = 1, overdue_tasks = 0,
          pending_tasks = 7, recent_activity = [], current_streak = 0, today_pomodoros = [],
          peak_hour = None, lumi_memory = None\<rparr>\<lparr>overdue_tasks := 0\<rparr>)
    \<le> calculate_struggling_score
        (\<lparr>user_id = Some ''u1'', total_tasks = 8, completed_tasks = 1, overdue_tasks = 0,
          pending_tasks = 7, recent_activity = [], current_streak = 0, today_pomodoros = [],
          peak_hour = None, lumi_memory = None\<rparr>\<lparr>overdue_tasks := 4\<rparr>)"
proof -
  have a: "(1::real) \<le> 4" and b: "(0::int) \<le> 4" by simp_all
  from a struggling_monotone_in_overdue [of 1 4 _ 0 4] b show ?thesis by blast
qed

section \<open>Result cache: hits and expiry\<close>

text \<open>Two calls in the same minute: after a first call that computed, a second call for
  the same user returns the stored analysis, whatever its own context, and leaves the cache
  as it is.\<close>

lemma same_minute_key:
  "t2 div 60 = t1 div 60 \<Longrightarrow> cache_key uid t2 = cache_key uid t1"
proof -
  assume a: "t2 div 60 = t1 div 60"
  have "t div 3600 = (t div 60) div 60" for t :: int
    by (simp add: div_mult2_eq [symmetric])
  then have "t2 div 3600 = t1 div 3600" using a by simp
  then show ?thesis using a by (simp add: cache_key_def hour_of_def minute_of_def)
qed

lemma same_minute_second_call_hits:
  assumes uid: "user_id ctx1 = Some uid" "uid \<noteq> []" "user_id ctx2 = Some uid"
    and miss: "cache (cache_key uid t1) = None"
    and time: "t1 \<le> t2" "t2 div 60 = t1 div 60"
  shows "analyze_user_mood (snd (analyze_user_mood cache t1 ctx1)) t2 ctx2
         = (compute_mood_analysis (hour_of t1) ctx1, snd (analyze_user_mood cache t1 ctx1))"
    and "fst (analyze_user_mood cache t1 ctx1) = compute_mood_analysis (hour_of t1) ctx1"
proof -
  let ?entry = "\<lparr>mood_analysis = compute_mood_analysis (hour_of t1) ctx1, cached_at = t1\<rparr>"
  have first: "analyze_user_mood cache t1 ctx1
      = (compute_mood_analysis (hour_of t1) ctx1, cache(cache_key uid t1 \<mapsto> ?entry))"
    using uid miss by (simp add: analyze_user_mood_def Let_def)
  have key: "cache_key uid t2 = cache_key uid t1" using time(2) by (rule same_minute_key)
  have "t2 - t1 < 60"
  proof -
    have "t2 = 60 * (t2 div 60) + t2 mod 60" by simp
    moreover have "t1 = 60 * (t1 div 60) + t1 mod 60" by simp
    moreover have "t2 mod 60 < 60" "0 \<le> t1 mod 60" by simp_all
    ultimately show ?thesis using time(2) by linarith
  qed
  then have age: "timedelta_seconds t2 t1 < 1800"
    using time(1) by (simp add: timedelta_seconds_def)
  show "analyze_user_mood (snd (analyze_user_mood cache t1 ctx1)) t2 ctx2
         = (compute_mood_analysis (hour_of t1) ctx1, snd (analyze_user_mood cache t1 ctx1))"
    unfolding first snd_conv
    using uid age by (simp add: analyze_user_mood_def Let_def key)
  show "fst (analyze_user_mood cache t1 ctx1) = compute_mood_analysis (hour_of t1) ctx1"
    by (simp add: first)
qed

text \<open>
  Claim C7, evaluated on the code.  An entry stored at time 0 is found under the same key
  one day and five seconds later; it is 86405 seconds old, more than 30 minutes, but the
  \<^verbatim>\<open>seconds\<close> attribute of the difference is 5, so the entry is returned.
\<close>

theorem day_old_cache_entry_returned:
  "fst (analyze_user_mood
         [cache_key ''u1'' 0 \<mapsto> \<lparr>mood_analysis = a, cached_at = 0\<rparr>] 86405
         (ctx\<lparr>user_id := Some ''u1''\<rparr>)) = a
   \<and> cache_key ''u1'' 86405 = cache_key ''u1'' 0
   \<and> (86405::int) - 0 > 1800
   \<and> timedelta_seconds 86405 0 = 5"
  by (simp add: analyze_user_mood_def Let_def cache_key_def hour_of_def minute_of_def
      timedelta_seconds_def)

section \<open>Dependence on the clock\<close>













end
